theory Spec2Isabelle
  imports Complex_Main
begin

section \<open>Configuration parameters\<close>

text \<open>
  The scripts compute in IEEE double precision; the embedding uses the real numbers, so
  every statement below is about the exact arithmetic the floating-point code approximates.
  The module-level constants are shared by the three script versions.
\<close>

definition POWER_HP :: real where "POWER_HP = 800"
definition POWER_KW :: real where "POWER_KW = POWER_HP * 0.7457"
definition VOLTAGE :: real where "VOLTAGE = 460"
definition BASE_FREQ :: real where "BASE_FREQ = 60"
definition POLES :: real where "POLES = 4"
definition EFFICIENCY :: real where "EFFICIENCY = 0.95"
definition POWER_FACTOR :: real where "POWER_FACTOR = 0.88"

definition SYNC_SPEED_RPM :: real where "SYNC_SPEED_RPM = 120 * BASE_FREQ / POLES"
definition SYNC_SPEED_RAD :: real where "SYNC_SPEED_RAD = SYNC_SPEED_RPM * (2 * pi / 60)"
definition RATED_TORQUE :: real where
  "RATED_TORQUE = (POWER_KW * 1000) / (SYNC_SPEED_RAD * (1 - 0.03))"

definition INERTIA :: real where "INERTIA = 150"
definition DAMPING :: real where "DAMPING = 2.0"
definition LOAD_TORQUE_FACTOR :: real where "LOAD_TORQUE_FACTOR = 0.75"

definition RAMP_TIME :: real where "RAMP_TIME = 30"
definition VFD_RAMP_TIME :: real where "VFD_RAMP_TIME = 30"
definition SOFT_START_RAMP_TIME :: real where "SOFT_START_RAMP_TIME = 20"
definition V_BOOST :: real where "V_BOOST = 0.15"
definition SOFT_START_INITIAL_VOLTAGE :: real where "SOFT_START_INITIAL_VOLTAGE = 0.3"

definition LOAD_TYPE :: string where "LOAD_TYPE = ''constant_torque''"

definition FLA :: real where
  "FLA = (POWER_KW * 1000) / (sqrt 3 * VOLTAGE * POWER_FACTOR * EFFICIENCY)"
definition LOAD_TORQUE :: real where "LOAD_TORQUE = RATED_TORQUE * LOAD_TORQUE_FACTOR"

text \<open>\<open>np.clip(x, lo, hi)\<close> on a scalar.\<close>

definition clip :: "real \<Rightarrow> real \<Rightarrow> real \<Rightarrow> real" where
  "clip x lo hi = min (max x lo) hi"

section \<open>Load torque model\<close>

text \<open>
  \<open>get_load_torque\<close> is the same function in versions 3 and 4. The load type is a
  Python string; any string other than the three known ones takes the final \<open>else\<close>.
\<close>

definition get_load_torque :: "real \<Rightarrow> real \<Rightarrow> string \<Rightarrow> real" where
  "get_load_torque speed_ratio base_torque load_type =
     (let speed_ratio = max 0 (min speed_ratio 1.0) in
      if load_type = ''constant_torque'' then base_torque * (0.3 + 0.7 * speed_ratio)
      else if load_type = ''fan_pump'' then base_torque * speed_ratio\<^sup>2
      else if load_type = ''constant_power'' then
        (if speed_ratio < 0.1 then base_torque * 0.1 / 0.1
         else base_torque * 1.0 / speed_ratio)
      else base_torque * (0.3 + 0.7 * speed_ratio))"

text \<open>
  The floor branch of the constant-power load is the one place where the statement of a
  claim depends on rounding: \<open>base_torque * 0.1 / 0.1\<close> is \<open>base_torque\<close> over the
  reals, but Python evaluates it in IEEE binary64, rounding the literal \<open>0.1\<close>, the
  product and the quotient to the nearest double, ties to even. \<open>round_double\<close> is that
  rounding for values in the normal range, and \<open>constant_power_floor_double\<close> the
  expression as Python evaluates it for a \<open>base_torque\<close> that is a double.
\<close>

definition round_half_even :: "real \<Rightarrow> int" where
  "round_half_even x =
     (let f = \<lfloor>x\<rfloor> in
      if x - of_int f < 1 / 2 then f
      else if 1 / 2 < x - of_int f then f + 1
      else if even f then f else f + 1)"

definition round_double :: "real \<Rightarrow> real" where
  "round_double x =
     (if x = 0 then 0
      else (let e = \<lfloor>log 2 \<bar>x\<bar>\<rfloor> - 52
            in of_int (round_half_even (x / 2 powr of_int e)) * 2 powr of_int e))"

definition constant_power_floor_double :: "real \<Rightarrow> real" where
  "constant_power_floor_double base_torque =
     round_double (round_double (base_torque * round_double 0.1) / round_double 0.1)"

section \<open>Control laws\<close>

text \<open>Version 2 and 3: the frequency ramp uses the module constant \<open>RAMP_TIME\<close>.\<close>

definition freq_func :: "real \<Rightarrow> real" where
  "freq_func t = (if t \<le> RAMP_TIME then BASE_FREQ * (t / RAMP_TIME) else BASE_FREQ)"

definition voltage_func :: "real \<Rightarrow> real" where
  "voltage_func freq =
     (let base_voltage = VOLTAGE * (freq / BASE_FREQ) in
      if freq < BASE_FREQ * 0.1 then
        (let boost = VOLTAGE * V_BOOST * (1 - freq / (BASE_FREQ * 0.1)) in base_voltage + boost)
      else base_voltage)"

text \<open>
  Version 4 passes the ramp time as an argument. A ramp time of zero makes
  \<open>t / ramp_time\<close> fail (ZeroDivisionError on a Python float, NaN on a NumPy scalar) when
  the ramp branch is taken; that outcome is \<open>None\<close>.
\<close>

definition vfd_freq_func :: "real \<Rightarrow> real \<Rightarrow> real option" where
  "vfd_freq_func t ramp_time =
     (if t \<le> ramp_time then
        (if ramp_time = 0 then None else Some (BASE_FREQ * (t / ramp_time)))
      else Some BASE_FREQ)"

definition vfd_voltage_func :: "real \<Rightarrow> real" where
  "vfd_voltage_func freq =
     (let base_voltage = VOLTAGE * (freq / BASE_FREQ) in
      if freq < BASE_FREQ * 0.1 then
        (let boost = VOLTAGE * V_BOOST * (1 - freq / (BASE_FREQ * 0.1)) in base_voltage + boost)
      else base_voltage)"

text \<open>
  The soft starter reads the module constant \<open>SOFT_START_INITIAL_VOLTAGE\<close>; it is the
  first argument here, so that other configured values can be stated.
\<close>

definition soft_start_voltage_func :: "real \<Rightarrow> real \<Rightarrow> real \<Rightarrow> real option" where
  "soft_start_voltage_func initial_voltage t ramp_time =
     (if t \<le> ramp_time then
        (if ramp_time = 0 then None
         else (let voltage_ratio = initial_voltage + (1 - initial_voltage) * (t / ramp_time)
               in Some (VOLTAGE * voltage_ratio)))
      else Some VOLTAGE)"

section \<open>Motor dynamics\<close>

text \<open>The rational torque-slip characteristic with its local constants \<open>a\<close>, \<open>b\<close>, \<open>c\<close>.\<close>

definition torque_ratio :: "real \<Rightarrow> real" where
  "torque_ratio slip =
     (let a = 2.5; b = 0.15; c = 0.08 in (a * slip) / (slip\<^sup>2 + b * slip + c))"

text \<open>Synchronous speed in rad/s at a setpoint frequency.\<close>

definition sync_speed_rad :: "real \<Rightarrow> real" where
  "sync_speed_rad freq = (120 * freq / POLES) * (2 * pi / 60)"

text \<open>
  Version 3, \<open>motor_dynamics(state, t, freq_func, base_load_torque, load_type)\<close>; the
  state is the single component \<open>omega_rad\<close> and the result the single derivative.
\<close>

definition motor_dynamics :: "real \<Rightarrow> real \<Rightarrow> (real \<Rightarrow> real) \<Rightarrow> real \<Rightarrow> string \<Rightarrow> real" where
  "motor_dynamics omega_rad t ff base_load_torque load_type =
     (let freq = ff t in
      if freq < 1.0 then
        (if sync_speed_rad freq < 0.1 then 0
         else
           (let slip = clip ((sync_speed_rad freq - omega_rad) / sync_speed_rad freq) 0 1.0;
                torque_em = RATED_TORQUE * 2.5 * slip * (1 + V_BOOST * 5);
                speed_ratio = (if SYNC_SPEED_RAD > 0 then omega_rad / SYNC_SPEED_RAD else 0);
                effective_load = get_load_torque speed_ratio base_load_torque load_type
            in (torque_em - effective_load - DAMPING * omega_rad) / INERTIA))
      else
        (let slip = clip ((sync_speed_rad freq - omega_rad) / sync_speed_rad freq) 0 1.0;
             torque_em = RATED_TORQUE * torque_ratio slip;
             freq_ratio = freq / BASE_FREQ;
             torque_em = torque_em * freq_ratio;
             torque_em = (if freq < BASE_FREQ * 0.15
                          then torque_em * (1 + V_BOOST * (1 - freq / (BASE_FREQ * 0.15)))
                          else torque_em);
             speed_ratio = (if SYNC_SPEED_RAD > 0 then omega_rad / SYNC_SPEED_RAD else 0);
             effective_load = get_load_torque speed_ratio base_load_torque load_type
         in (torque_em - effective_load - DAMPING * omega_rad) / INERTIA))"

text \<open>Version 2, \<open>motor_dynamics(state, t, freq_func, load_torque)\<close>.\<close>

definition motor_dynamics_v2 :: "real \<Rightarrow> real \<Rightarrow> (real \<Rightarrow> real) \<Rightarrow> real \<Rightarrow> real" where
  "motor_dynamics_v2 omega_rad t ff load_torque =
     (let freq = ff t in
      if freq < 1.0 then
        (if sync_speed_rad freq < 0.1 then 0
         else
           (let slip = clip ((sync_speed_rad freq - omega_rad) / sync_speed_rad freq) 0 1.0;
                torque_em = RATED_TORQUE * 2.5 * slip * (1 + V_BOOST * 5)
            in (torque_em - load_torque * 0.3 - DAMPING * omega_rad) / INERTIA))
      else
        (let slip = clip ((sync_speed_rad freq - omega_rad) / sync_speed_rad freq) 0 1.0;
             torque_em = RATED_TORQUE * torque_ratio slip;
             freq_ratio = freq / BASE_FREQ;
             torque_em = torque_em * freq_ratio;
             torque_em = (if freq < BASE_FREQ * 0.15
                          then torque_em * (1 + V_BOOST * (1 - freq / (BASE_FREQ * 0.15)))
                          else torque_em);
             speed_ratio = (if SYNC_SPEED_RAD > 0 then omega_rad / SYNC_SPEED_RAD else 0);
             effective_load = load_torque * (0.3 + 0.7 * speed_ratio)
         in (torque_em - effective_load - DAMPING * omega_rad) / INERTIA))"

text \<open>
  Version 4, soft starter. \<open>soft_start_torque_em\<close> is the local \<open>torque_em\<close> of
  \<open>soft_start_motor_dynamics\<close>: full frequency, torque scaled by the squared voltage ratio.
\<close>

definition soft_start_torque_em :: "real \<Rightarrow> real \<Rightarrow> real \<Rightarrow> real \<Rightarrow> real option" where
  "soft_start_torque_em initial_voltage omega_rad t ramp_time =
     (case soft_start_voltage_func initial_voltage t ramp_time of
        None \<Rightarrow> None
      | Some voltage \<Rightarrow>
          (let voltage_ratio = voltage / VOLTAGE;
               slip = clip ((SYNC_SPEED_RAD - omega_rad) / SYNC_SPEED_RAD) 0 1.0
           in Some (RATED_TORQUE * torque_ratio slip * voltage_ratio\<^sup>2)))"

definition soft_start_motor_dynamics ::
  "real \<Rightarrow> real \<Rightarrow> real \<Rightarrow> real \<Rightarrow> string \<Rightarrow> real \<Rightarrow> real option" where
  "soft_start_motor_dynamics initial_voltage omega_rad t base_load_torque load_type ramp_time =
     (case soft_start_torque_em initial_voltage omega_rad t ramp_time of
        None \<Rightarrow> None
      | Some torque_em \<Rightarrow>
          (let speed_ratio = (if SYNC_SPEED_RAD > 0 then omega_rad / SYNC_SPEED_RAD else 0);
               effective_load = get_load_torque speed_ratio base_load_torque load_type
           in Some ((torque_em - effective_load - DAMPING * omega_rad) / INERTIA)))"

section \<open>Trajectories\<close>


definition soft_start_trajectory ::
  "(real \<Rightarrow> real) \<Rightarrow> real \<Rightarrow> real \<Rightarrow> real \<Rightarrow> string \<Rightarrow> real \<Rightarrow> bool" where
  "soft_start_trajectory omega T initial_voltage base_load_torque load_type ramp_time \<longleftrightarrow>
     omega 0 = 0 \<and>
     (\<forall>t\<in>{0..T}. \<exists>d.
        soft_start_motor_dynamics initial_voltage (omega t) t base_load_torque load_type ramp_time
          = Some d
        \<and> (omega has_real_derivative d) (at t within {0..T}))"

section \<open>Direct-on-line approximation\<close>

record dol_point =
  dol_omega :: real
  dol_current :: real
  dol_torque :: real

text \<open>The body of the loop of \<open>simulate_dol_start\<close> at time \<open>t\<close>.\<close>

definition dol_sample :: "real \<Rightarrow> dol_point" where
  "dol_sample t =
     (if t = 0 then
        \<lparr>dol_omega = 0, dol_current = FLA * 6.5, dol_torque = RATED_TORQUE * 2.5\<rparr>
      else
        (let tau = 2.0;
             speed_ratio = 1 - exp (- t / tau);
             slip_ratio = 1 - speed_ratio * 0.97
         in \<lparr>dol_omega = SYNC_SPEED_RPM * 0.97 * speed_ratio,
             dol_current = FLA * (1 + 5.5 * slip_ratio),
             dol_torque = RATED_TORQUE * (2.5 * slip_ratio + 1.0)\<rparr>))"

text \<open>\<open>np.linspace(start, stop, num)\<close> for \<open>num > 1\<close>.\<close>

definition linspace :: "real \<Rightarrow> real \<Rightarrow> nat \<Rightarrow> real list" where
  "linspace start stop num =
     map (\<lambda>i. start + real i * ((stop - start) / real (num - 1))) [0..<num]"

definition dol_time :: "real list" where
  "dol_time = linspace 0 5 500"

definition simulate_dol_start :: "dol_point list" where
  "simulate_dol_start = map dol_sample dol_time"

section \<open>Metrics\<close>

text \<open>
  Version 3 fills seven arrays in one loop over the samples; a \<open>metrics\<close> value is the
  entries of those arrays at one index. All arrays start as zeros, so an entry the loop
  does not assign stays zero.
\<close>

record metrics =
  slip_array :: real
  torque_array :: real
  current_array :: real
  load_torque_array :: real
  power_output_array :: real
  power_input_array :: real
  efficiency_array :: real

definition sample_metrics :: "real \<Rightarrow> real \<Rightarrow> metrics" where
  "sample_metrics t omega_rad =
     (let freq = freq_func t in
      if freq \<ge> 0.5 then
        (let sync = sync_speed_rad freq;
             slip = (if sync > 0 then (sync - omega_rad) / sync else 1.0);
             slip = clip slip 0 1.0;
             torque_em =
               (if freq < 1.0 then RATED_TORQUE * 2.5 * slip * (1 + V_BOOST * 5)
                else
                  (let freq_ratio = freq / BASE_FREQ;
                       torque_em = RATED_TORQUE * torque_ratio slip * freq_ratio
                   in if freq < BASE_FREQ * 0.15
                      then torque_em * (1 + V_BOOST * (1 - freq / (BASE_FREQ * 0.15)))
                      else torque_em));
             speed_ratio = (if SYNC_SPEED_RAD > 0 then omega_rad / SYNC_SPEED_RAD else 0);
             load = get_load_torque speed_ratio LOAD_TORQUE LOAD_TYPE;
             torque_component = FLA * (torque_em / RATED_TORQUE);
             magnetizing_component = FLA * 0.3;
             current = sqrt (torque_component\<^sup>2 + magnetizing_component\<^sup>2);
             power_output = (omega_rad * load) / 1000;
             power_input = (sqrt 3 * VOLTAGE * current * POWER_FACTOR) / 1000
         in \<lparr>slip_array = slip * 100, torque_array = torque_em, current_array = current,
             load_torque_array = load, power_output_array = power_output,
             power_input_array = power_input,
             efficiency_array =
               (if power_input > 0 then (power_output / power_input) * 100 else 0)\<rparr>)
      else
        \<lparr>slip_array = 100, torque_array = 0, current_array = 0, load_torque_array = 0,
         power_output_array = 0, power_input_array = 0, efficiency_array = 0\<rparr>)"

text \<open>
  The loop over \<open>enumerate(time)\<close>; \<open>omega_rad\<close> is the output of \<open>odeint\<close> for
  \<open>time\<close>, so both have the same length.
\<close>

definition metrics_series :: "real list \<Rightarrow> real list \<Rightarrow> metrics list" where
  "metrics_series time omegas = map (\<lambda>(t, w). sample_metrics t w) (zip time omegas)"

text \<open>\<open>np.trapz(y, x)\<close>.\<close>

fun trapz :: "real list \<Rightarrow> real list \<Rightarrow> real" where
  "trapz (y0 # y1 # ys) (x0 # x1 # xs) = (x1 - x0) * (y1 + y0) / 2 + trapz (y1 # ys) (x1 # xs)"
| "trapz _ _ = 0"

definition vfd_energy_kj :: "real list \<Rightarrow> real list \<Rightarrow> real" where
  "vfd_energy_kj time omegas = trapz (map power_input_array (metrics_series time omegas)) time"

text \<open>
  \<open>np.mean(efficiency_array[efficiency_array > 0])\<close>; the mean of an empty selection is
  NaN, here \<open>None\<close>.
\<close>

definition avg_efficiency :: "metrics list \<Rightarrow> real option" where
  "avg_efficiency ms =
     (let selected = filter (\<lambda>e. e > 0) (map efficiency_array ms) in
      if selected = [] then None else Some (sum_list selected / real (length selected)))"

text \<open>
  The average as the specification words it: the mean of the efficiency over the samples
  whose input power is strictly positive. It is compared with \<open>avg_efficiency\<close> below.
\<close>

definition avg_efficiency_spec :: "metrics list \<Rightarrow> real option" where
  "avg_efficiency_spec ms =
     (let selected = map efficiency_array (filter (\<lambda>m. power_input_array m > 0) ms) in
      if selected = [] then None else Some (sum_list selected / real (length selected)))"

text \<open>Version 2 computes slip, torque and current only.\<close>

record metrics_v2 =
  v2_slip :: real
  v2_torque :: real
  v2_current :: real

definition sample_metrics_v2 :: "real \<Rightarrow> real \<Rightarrow> metrics_v2" where
  "sample_metrics_v2 t omega_rad =
     (let freq = freq_func t in
      if freq \<ge> 0.5 then
        (let sync = sync_speed_rad freq;
             slip = (if sync > 0 then (sync - omega_rad) / sync else 1.0);
             slip = clip slip 0 1.0;
             torque_em =
               (if freq < 1.0 then RATED_TORQUE * 2.5 * slip * (1 + V_BOOST * 5)
                else
                  (let freq_ratio = freq / BASE_FREQ;
                       torque_em = RATED_TORQUE * torque_ratio slip * freq_ratio
                   in if freq < BASE_FREQ * 0.15
                      then torque_em * (1 + V_BOOST * (1 - freq / (BASE_FREQ * 0.15)))
                      else torque_em));
             torque_component = FLA * (torque_em / RATED_TORQUE);
             magnetizing_component = FLA * 0.3
         in \<lparr>v2_slip = slip * 100, v2_torque = torque_em,
             v2_current = sqrt (torque_component\<^sup>2 + magnetizing_component\<^sup>2)\<rparr>)
      else \<lparr>v2_slip = 100, v2_torque = 0, v2_current = 0\<rparr>)"

text \<open>
  Version 4, \<open>calculate_metrics(time, omega_rad, method, ramp_time)\<close>: one loop iteration.
  The arrays start as zeros and \<open>continue\<close> leaves every entry of the sample at zero.
\<close>

record metrics_v4 =
  m_current :: real
  m_torque :: real
  m_slip :: real
  m_load_torque :: real
  m_power_in :: real
  m_power_out :: real
  m_efficiency :: real
  m_voltage :: real

definition zero_metrics :: metrics_v4 where
  "zero_metrics = \<lparr>m_current = 0, m_torque = 0, m_slip = 0, m_load_torque = 0,
                    m_power_in = 0, m_power_out = 0, m_efficiency = 0, m_voltage = 0\<rparr>"

text \<open>
  The first part of the loop body: \<open>None\<close> is the failed division of the control law,
  \<open>Some None\<close> the \<open>continue\<close>, otherwise synchronous speed, frequency and voltage.
\<close>

definition calculate_metrics_setpoint ::
  "real \<Rightarrow> real \<Rightarrow> string \<Rightarrow> real \<Rightarrow> (real \<times> real \<times> real) option option" where
  "calculate_metrics_setpoint initial_voltage t method ramp_time =
     (if method = ''vfd'' then
        (case vfd_freq_func t ramp_time of
           None \<Rightarrow> None
         | Some freq \<Rightarrow>
             if freq < 0.5 then Some None
             else Some (Some (sync_speed_rad freq, freq, vfd_voltage_func freq)))
      else
        (case soft_start_voltage_func initial_voltage t ramp_time of
           None \<Rightarrow> None
         | Some v \<Rightarrow> Some (Some (SYNC_SPEED_RAD, BASE_FREQ, v))))"

text \<open>
  The rest of the loop body. The entry \<open>omega_rad[i]\<close> is \<open>None\<close> when the index is past
  the end of the array; reading it then raises IndexError, the result \<open>None\<close>.
\<close>

definition calculate_metrics_sample ::
  "real \<Rightarrow> real \<Rightarrow> real option \<Rightarrow> string \<Rightarrow> real \<Rightarrow> metrics_v4 option" where
  "calculate_metrics_sample initial_voltage t omega_rad_i method ramp_time =
     (case calculate_metrics_setpoint initial_voltage t method ramp_time of
        None \<Rightarrow> None
      | Some None \<Rightarrow> Some zero_metrics
      | Some (Some (sync, freq, voltage)) \<Rightarrow>
          (case omega_rad_i of
             None \<Rightarrow> None
           | Some omega_rad \<Rightarrow>
          (let s = (if sync > 0 then (sync - omega_rad) / sync else 1.0);
               s = clip s 0 1.0;
               torque =
                 (if method = ''vfd'' then
                    (let freq_ratio = freq / BASE_FREQ;
                         torque = RATED_TORQUE * torque_ratio s * freq_ratio
                     in if freq < BASE_FREQ * 0.15
                        then torque * (1 + V_BOOST * (1 - freq / (BASE_FREQ * 0.15)))
                        else torque)
                  else
                    (let voltage_ratio = voltage / VOLTAGE
                     in RATED_TORQUE * torque_ratio s * voltage_ratio\<^sup>2));
               speed_ratio = (if SYNC_SPEED_RAD > 0 then omega_rad / SYNC_SPEED_RAD else 0);
               load = get_load_torque speed_ratio LOAD_TORQUE LOAD_TYPE;
               torque_component = FLA * (torque / RATED_TORQUE);
               magnetizing_component = FLA * 0.3;
               current = sqrt (torque_component\<^sup>2 + magnetizing_component\<^sup>2);
               current =
                 (if method = ''soft_starter'' \<and> t < ramp_time \<and> voltage / VOLTAGE > 0.3
                  then current * (1.2 / (voltage / VOLTAGE)) else current);
               power_out = (omega_rad * load) / 1000;
               power_in = (sqrt 3 * voltage * current * POWER_FACTOR) / 1000
           in Some \<lparr>m_current = current, m_torque = torque, m_slip = s * 100,
                    m_load_torque = load, m_power_in = power_in, m_power_out = power_out,
                    m_efficiency = (if power_in > 0 then (power_out / power_in) * 100 else 0),
                    m_voltage = voltage\<rparr>)))"

text \<open>
  The whole loop over \<open>enumerate(time)\<close>: the arrays as a list of per-sample values,
  \<open>None\<close> if an iteration fails.
\<close>

fun calculate_metrics ::
  "real \<Rightarrow> real list \<Rightarrow> real list \<Rightarrow> string \<Rightarrow> real \<Rightarrow> metrics_v4 list option" where
  "calculate_metrics initial_voltage [] omega_rad method ramp_time = Some []"
| "calculate_metrics initial_voltage (t # ts) omega_rad method ramp_time =
     (case calculate_metrics_sample initial_voltage t
             (case omega_rad of [] \<Rightarrow> None | w # _ \<Rightarrow> Some w) method ramp_time of
        None \<Rightarrow> None
      | Some m \<Rightarrow>
          (case calculate_metrics initial_voltage ts (tl omega_rad) method ramp_time of
             None \<Rightarrow> None
           | Some ms \<Rightarrow> Some (m # ms)))"

section \<open>Basic facts about the constants\<close>

lemma SYNC_SPEED_RAD_eq: "SYNC_SPEED_RAD = 60 * pi"
  by (simp add: SYNC_SPEED_RAD_def SYNC_SPEED_RPM_def BASE_FREQ_def POLES_def)

lemma SYNC_SPEED_RAD_pos: "0 < SYNC_SPEED_RAD"
  by (simp add: SYNC_SPEED_RAD_eq)

lemma RATED_TORQUE_pos: "0 < RATED_TORQUE"
  using SYNC_SPEED_RAD_pos
  by (simp add: RATED_TORQUE_def POWER_KW_def POWER_HP_def)

lemma LOAD_TORQUE_pos: "0 < LOAD_TORQUE"
  using RATED_TORQUE_pos by (simp add: LOAD_TORQUE_def LOAD_TORQUE_FACTOR_def)

lemma FLA_pos: "0 < FLA"
  by (simp add: FLA_def POWER_KW_def POWER_HP_def VOLTAGE_def POWER_FACTOR_def EFFICIENCY_def)

section \<open>Load torque bounds\<close>

lemma get_load_torque_ct_eq:
  "get_load_torque r b ''constant_torque'' = b * (0.3 + 0.7 * max 0 (min r 1))"
  by (simp add: get_load_torque_def Let_def)

lemma get_load_torque_fp_eq:
  "get_load_torque r b ''fan_pump'' = b * (max 0 (min r 1))\<^sup>2"
  by (simp add: get_load_torque_def Let_def)

lemma get_load_torque_cp_eq:
  "get_load_torque r b ''constant_power'' =
     (if max 0 (min r 1) < 0.1 then b else b / max 0 (min r 1))"
  by (auto simp: get_load_torque_def Let_def max_def min_def)

lemma get_load_torque_fallback:
  assumes "lt \<noteq> ''constant_torque''" "lt \<noteq> ''fan_pump''" "lt \<noteq> ''constant_power''"
  shows "get_load_torque r b lt = get_load_torque r b ''constant_torque''"
  using assms by (simp add: get_load_torque_def)

lemma get_load_torque_constant_torque:
  assumes "0 \<le> b"
  shows "0 \<le> get_load_torque r b ''constant_torque''"
    and "get_load_torque r b ''constant_torque'' \<le> b"
proof -
  define s where "s = max 0 (min r 1)"
  have s: "0 \<le> s" "s \<le> 1" by (simp_all add: s_def)
  have eq: "get_load_torque r b ''constant_torque'' = b * (0.3 + 0.7 * s)"
    unfolding s_def by (rule get_load_torque_ct_eq)
  have "0 \<le> 0.3 + 0.7 * s" using s by simp
  then show "0 \<le> get_load_torque r b ''constant_torque''"
    using assms unfolding eq by (rule mult_nonneg_nonneg [rotated])
  have "0.3 + 0.7 * s \<le> 1" using s by simp
  then have "b * (0.3 + 0.7 * s) \<le> b * 1"
    using assms by (rule mult_left_mono)
  then show "get_load_torque r b ''constant_torque'' \<le> b" unfolding eq by simp
qed

lemma get_load_torque_fan_pump:
  assumes "0 \<le> b"
  shows "0 \<le> get_load_torque r b ''fan_pump''"
    and "get_load_torque r b ''fan_pump'' \<le> b"
proof -
  define s where "s = max 0 (min r 1)"
  have s: "0 \<le> s" "s \<le> 1" by (simp_all add: s_def)
  have eq: "get_load_torque r b ''fan_pump'' = b * s\<^sup>2"
    unfolding s_def by (rule get_load_torque_fp_eq)
  show "0 \<le> get_load_torque r b ''fan_pump''"
    using assms unfolding eq by simp
  have "s\<^sup>2 \<le> 1" using s by (simp add: power_le_one)
  then have "b * s\<^sup>2 \<le> b * 1"
    using assms by (rule mult_left_mono)
  then show "get_load_torque r b ''fan_pump'' \<le> b" unfolding eq by simp
qed

lemma get_load_torque_constant_power:
  assumes "0 \<le> b"
  shows "0 \<le> get_load_torque r b ''constant_power''"
    and "get_load_torque r b ''constant_power'' \<le> 10 * b"
    and "max 0 (min r 1) < 0.1 \<Longrightarrow> get_load_torque r b ''constant_power'' = b"
proof -
  define s where "s = max 0 (min r 1)"
  have s: "0 \<le> s" "s \<le> 1" by (simp_all add: s_def)
  have eq: "get_load_torque r b ''constant_power'' = (if s < 0.1 then b else b / s)"
    unfolding s_def by (rule get_load_torque_cp_eq)
  show "0 \<le> get_load_torque r b ''constant_power''"
    using assms s unfolding eq by simp
  show "get_load_torque r b ''constant_power'' \<le> 10 * b"
  proof (cases "s < 0.1")
    case True
    then show ?thesis using assms unfolding eq by simp
  next
    case False
    then have pos: "0 < s" and ge: "1 \<le> 10 * s" by simp_all
    have "b * 1 \<le> b * (10 * s)" using ge assms by (rule mult_left_mono)
    then have "b / s \<le> 10 * b" using pos by (simp add: pos_divide_le_eq)
    then show ?thesis using False unfolding eq by simp
  qed
  show "get_load_torque r b ''constant_power'' = b" if "max 0 (min r 1) < 0.1"
  proof -
    from that have "s < 0.1" unfolding s_def .
    then show ?thesis unfolding eq by simp
  qed
qed

text \<open>
  Over the reals: for every load type (the three known ones and any other string, which
  falls back to the constant-torque curve), every speed ratio and every non-negative base
  torque, \<open>get_load_torque\<close> is non-negative; it is at most the base torque for
  constant-torque, fan/pump and fallback loads, at most ten times the base torque for
  constant-power loads, and equal to the base torque for a constant-power load whose
  clamped speed ratio is below 0.1.
\<close>

lemma get_load_torque_bounds:
  assumes "0 \<le> b"
  shows "0 \<le> get_load_torque r b lt
       \<and> (lt \<noteq> ''constant_power'' \<longrightarrow> get_load_torque r b lt \<le> b)
       \<and> (lt = ''constant_power'' \<longrightarrow> get_load_torque r b lt \<le> 10 * b)
       \<and> (lt = ''constant_power'' \<and> max 0 (min r 1) < 0.1 \<longrightarrow> get_load_torque r b lt = b)"
proof -
  consider (ct) "lt = ''constant_torque''" | (fp) "lt = ''fan_pump''"
    | (cp) "lt = ''constant_power''"
    | (other) "lt \<noteq> ''constant_torque''" "lt \<noteq> ''fan_pump''" "lt \<noteq> ''constant_power''"
    by blast
  then show ?thesis
  proof cases
    case ct
    then show ?thesis using get_load_torque_constant_torque [OF assms, of r] by simp
  next
    case fp
    then show ?thesis using get_load_torque_fan_pump [OF assms, of r] by simp
  next
    case cp
    then show ?thesis using get_load_torque_constant_power [OF assms, of r] by simp
  next
    case other
    have "get_load_torque r b lt = get_load_torque r b ''constant_torque''"
      using other by (rule get_load_torque_fallback)
    with other(3) show ?thesis
      using get_load_torque_constant_torque [OF assms, of r] by simp
  qed
qed

subsection \<open>The floor branch in double precision\<close>

lemma round_double_at:
  fixes n :: nat
  assumes "0 < x" "2 ^ 52 \<le> x * 2 ^ n" "x * 2 ^ n < 2 ^ 53"
  shows "round_double x = of_int (round_half_even (x * 2 ^ n)) / 2 ^ n"
proof -
  have p: "(2::real) powr (52 - int n) = 2 ^ 52 / 2 ^ n"
    by (simp add: powr_diff powr_realpow)
  have q: "(2::real) powr (52 - int n + 1) = 2 ^ 53 / 2 ^ n"
    by (simp add: powr_diff powr_add powr_realpow)
  have "2 powr (52 - int n) \<le> x \<and> x < 2 powr (52 - int n + 1)"
    unfolding p q using assms(2,3) by (simp add: field_simps)
  then have "\<lfloor>log 2 x\<rfloor> = 52 - int n"
    using assms(1) by (simp add: floor_log_eq_powr_iff)
  then have e: "\<lfloor>log 2 \<bar>x\<bar>\<rfloor> - 52 = - int n" using assms(1) by simp
  have r: "(2::real) powr of_int (- int n) = 1 / 2 ^ n"
    by (simp add: powr_minus powr_realpow divide_inverse)
  show ?thesis
    using assms(1) unfolding round_double_def e Let_def r by simp
qed

lemma double_one_tenth: "round_double 0.1 = 3602879701896397 / 2 ^ 55"
proof -
  have "round_double (1 / 10) = of_int (round_half_even ((1 / 10) * 2 ^ 56)) / 2 ^ 56"
    by (rule round_double_at) simp_all
  also have "round_half_even ((1 / 10) * 2 ^ 56) = 7205759403792794"
    by (simp add: round_half_even_def Let_def)
  finally show ?thesis by simp
qed

lemma double_product: "round_double (3 * (3602879701896397 / 2 ^ 55)) = 5404319552844596 / 2 ^ 54"
proof -
  have "round_double (3 * (3602879701896397 / 2 ^ 55)) =
      of_int (round_half_even ((3 * (3602879701896397 / 2 ^ 55)) * 2 ^ 54)) / 2 ^ 54"
    by (rule round_double_at) simp_all
  also have "round_half_even ((3 * (3602879701896397 / 2 ^ 55)) * 2 ^ 54) = 5404319552844596"
    by (simp add: round_half_even_def Let_def)
  finally show ?thesis by simp
qed

lemma double_quotient:
  "round_double ((5404319552844596 / 2 ^ 54) / (3602879701896397 / 2 ^ 55)) =
     6755399441055745 / 2 ^ 51"
proof -
  have "round_double ((5404319552844596 / 2 ^ 54) / (3602879701896397 / 2 ^ 55)) =
      of_int (round_half_even (((5404319552844596 / 2 ^ 54) / (3602879701896397 / 2 ^ 55)) * 2 ^ 51))
        / 2 ^ 51"
    by (rule round_double_at) simp_all
  also have "round_half_even (((5404319552844596 / 2 ^ 54) / (3602879701896397 / 2 ^ 55)) * 2 ^ 51)
      = 6755399441055745"
    by (simp add: round_half_even_def Let_def)
  finally show ?thesis by simp
qed

text \<open>
  Claim C7 says that the constant-power result is clamped to exactly the base torque when
  the clamped speed ratio is below 0.1. The bounds of the claim hold
  (\<open>get_load_torque_bounds\<close>), and so does the equality over the reals; but the code
  computes \<open>base_torque * 0.1 / 0.1\<close> in doubles, and for
  \<open>get_load_torque(0.05, 3, 'constant_power')\<close> the product rounds up to
  0.30000000000000004 and the quotient to \<open>3 + 1 / 2 ^ 51\<close>, that is
  3.0000000000000004, not 3.
\<close>

theorem constant_power_floor_rounds:
  "constant_power_floor_double 3 = 3 + 1 / 2 ^ 51
   \<and> constant_power_floor_double 3 \<noteq> 3
   \<and> get_load_torque 0.05 3 ''constant_power'' = 3"
proof -
  have a: "constant_power_floor_double 3 = 6755399441055745 / 2 ^ 51"
    unfolding constant_power_floor_double_def double_one_tenth double_product double_quotient ..
  have b: "(6755399441055745::real) / 2 ^ 51 = 3 + 1 / 2 ^ 51" by simp
  have c: "get_load_torque 0.05 3 ''constant_power'' = 3"
    by (simp add: get_load_torque_cp_eq)
  from a b c show ?thesis by simp
qed

section \<open>The torque-slip characteristic\<close>

lemma torque_ratio_eq: "torque_ratio s = (2.5 * s) / (s\<^sup>2 + 0.15 * s + 0.08)"
  by (simp add: torque_ratio_def Let_def)

lemma torque_denominator_pos: "0 < s\<^sup>2 + 0.15 * s + (0.08::real)"
proof -
  have "0 \<le> (s + 0.075)\<^sup>2" by simp
  also have "(s + 0.075)\<^sup>2 = s\<^sup>2 + 0.15 * s + 0.005625" by (simp add: power2_eq_square algebra_simps)
  finally show ?thesis by simp
qed

lemma sqrt_c_sq: "(sqrt 0.08)\<^sup>2 = (0.08::real)"
  by simp

lemma sqrt_c_bounds: "0.2828 < sqrt (0.08::real)" "sqrt (0.08::real) < 0.2829"
proof -
  show "0.2828 < sqrt (0.08::real)" by (rule real_less_rsqrt) (simp add: power2_eq_square)
  show "sqrt (0.08::real) < 0.2829" by (rule real_less_lsqrt) (simp_all add: power2_eq_square)
qed

lemma torque_ratio_peak_value: "torque_ratio (sqrt 0.08) = 2.5 / (2 * sqrt 0.08 + 0.15)"
proof -
  define k :: real where "k = sqrt 0.08"
  have k2: "k\<^sup>2 = 0.08" unfolding k_def by simp
  have kpos: "0 < k" unfolding k_def by simp
  have "torque_ratio k = (2.5 * k) / (k\<^sup>2 + 0.15 * k + 0.08)" by (rule torque_ratio_eq)
  also have "\<dots> = (2.5 * k) / (k * (2 * k + 0.15))"
    using k2 by (simp add: power2_eq_square algebra_simps)
  also have "\<dots> = 2.5 / (2 * k + 0.15)" using kpos by simp
  finally show ?thesis unfolding k_def .
qed

lemma torque_ratio_le_peak: "torque_ratio s \<le> torque_ratio (sqrt 0.08)"
proof -
  define k :: real where "k = sqrt 0.08"
  define D where "D = s\<^sup>2 + 0.15 * s + 0.08"
  define E where "E = 2 * k + 0.15"
  have k2: "k\<^sup>2 = 0.08" unfolding k_def by simp
  have kpos: "0 < k" unfolding k_def by simp
  have d: "0 < D" unfolding D_def by (rule torque_denominator_pos)
  have e: "0 < E" unfolding E_def using kpos by simp
  have "0 \<le> (s - k)\<^sup>2" by simp
  then have "2 * k * s \<le> s\<^sup>2 + k\<^sup>2" by (simp add: power2_diff mult_ac)
  then have "s * E \<le> D"
    unfolding D_def E_def using k2 by (simp add: algebra_simps)
  then have "E * s \<le> D" by (simp add: mult.commute)
  then have "(2.5 * s) / D \<le> 2.5 / E"
    using d e by (simp add: field_simps)
  then have "torque_ratio s \<le> 2.5 / E"
    unfolding torque_ratio_eq [of s] D_def .
  then show ?thesis
    unfolding torque_ratio_peak_value E_def k_def .
qed

lemma torque_ratio_peak_bounds:
  "3.49 < torque_ratio (sqrt 0.08)" "torque_ratio (sqrt 0.08) < 3.5"
proof -
  have e: "0 < 2 * sqrt (0.08::real) + 0.15" by (simp add: add_pos_pos)
  have "2 * sqrt (0.08::real) + 0.15 < 0.7158" using sqrt_c_bounds(2) by simp
  then have "3.49 * (2 * sqrt (0.08::real) + 0.15) < 2.5" by simp
  then show "3.49 < torque_ratio (sqrt 0.08)"
    unfolding torque_ratio_peak_value using e by (simp add: pos_less_divide_eq)
  have "0.7156 < 2 * sqrt (0.08::real) + 0.15" using sqrt_c_bounds(1) by simp
  then have "2.5 < 3.5 * (2 * sqrt (0.08::real) + 0.15)" by simp
  then show "torque_ratio (sqrt 0.08) < 3.5"
    unfolding torque_ratio_peak_value using e by (simp add: pos_divide_less_eq)
qed

lemma torque_ratio_at_one: "torque_ratio 1 = 250 / 123"
  by (simp add: torque_ratio_eq)

text \<open>
  Claim C2, as stated, fails: at slip 0.28, inside \<open>[0, 1]\<close>, the ratio is already above
  3.49, so its maximum over \<open>[0, 1]\<close> is not approximately 2.5.
\<close>

theorem torque_ratio_exceeds_claimed_peak:
  "(0.28::real) \<in> {0..1} \<and> 3.49 < torque_ratio 0.28"
  by (simp add: torque_ratio_eq power2_eq_square)

text \<open>
  Claim C2, amended. The ratio \<open>(a*s)/(s\<^sup>2 + b*s + c)\<close> with \<open>a = 2.5\<close>, \<open>b = 0.15\<close>,
  \<open>c = 0.08\<close> attains its maximum at \<open>s = sqrt 0.08\<close>, which lies between 0.28 and 0.29;
  the maximum is \<open>2.5 / (2 * sqrt 0.08 + 0.15)\<close>, between 3.49 and 3.5 (about 3.49 times
  rated torque, not 2.5); the ratio at \<open>s = 1\<close> is \<open>250/123\<close>, which is nonzero.
\<close>

theorem torque_ratio_peak:
  "(\<forall>s. torque_ratio s \<le> torque_ratio (sqrt 0.08))
   \<and> 0.28 < sqrt (0.08::real) \<and> sqrt (0.08::real) < 0.29
   \<and> 3.49 < torque_ratio (sqrt 0.08) \<and> torque_ratio (sqrt 0.08) < 3.5
   \<and> torque_ratio 1 = 250 / 123 \<and> torque_ratio 1 \<noteq> 0"
proof -
  have a: "\<forall>s. torque_ratio s \<le> torque_ratio (sqrt 0.08)"
    using torque_ratio_le_peak by (rule allI)
  have b: "0.28 < sqrt (0.08::real)" using sqrt_c_bounds(1) by simp
  have c: "sqrt (0.08::real) < 0.29" using sqrt_c_bounds(2) by simp
  have d: "torque_ratio 1 \<noteq> 0" unfolding torque_ratio_at_one by simp
  from a b c torque_ratio_peak_bounds torque_ratio_at_one d show ?thesis by (intro conjI)
qed

section \<open>The degenerate synchronous speed guard\<close>

lemma sync_speed_rad_eq: "sync_speed_rad f = pi * f"
  by (simp add: sync_speed_rad_def POLES_def)

lemma degenerate_freq_lt_one:
  assumes "sync_speed_rad f < 0.1"
  shows "f < 1"
proof (rule ccontr)
  assume "\<not> f < 1"
  then have "1 \<le> f" by simp
  then have "pi \<le> pi * f" by simp
  moreover have "2 \<le> pi" by (rule pi_ge_two)
  moreover have "pi * f < 0.1" using assms unfolding sync_speed_rad_eq .
  ultimately show False by linarith
qed

lemma freq_func_zero: "freq_func 0 = 0"
  by (simp add: freq_func_def RAMP_TIME_def)

lemma sync_speed_rad_zero: "sync_speed_rad 0 = 0"
  by (simp add: sync_speed_rad_eq)

text \<open>
  Claim C6, as stated, fails: at \<open>t = 0\<close> the setpoint frequency and the synchronous
  speed are zero, the version 3 derivative at standstill is \<open>0\<close>, and the value
  \<open>(0 - loadTorque - damping*omega)/inertia\<close> the claim gives is negative there.
\<close>

theorem degenerate_derivative_differs:
  "sync_speed_rad (freq_func 0) < 0.1
   \<and> motor_dynamics 0 0 freq_func LOAD_TORQUE LOAD_TYPE
       \<noteq> (0 - get_load_torque (0 / SYNC_SPEED_RAD) LOAD_TORQUE LOAD_TYPE - DAMPING * 0) / INERTIA"
proof -
  have a: "sync_speed_rad (freq_func 0) < 0.1"
    by (simp add: freq_func_zero sync_speed_rad_zero)
  have b: "motor_dynamics 0 0 freq_func LOAD_TORQUE LOAD_TYPE = 0"
    by (simp add: motor_dynamics_def freq_func_zero sync_speed_rad_zero)
  have c: "get_load_torque (0 / SYNC_SPEED_RAD) LOAD_TORQUE LOAD_TYPE = LOAD_TORQUE * 0.3"
    by (simp add: LOAD_TYPE_def get_load_torque_ct_eq)
  have "(0 - get_load_torque (0 / SYNC_SPEED_RAD) LOAD_TORQUE LOAD_TYPE - DAMPING * 0) / INERTIA < 0"
    unfolding c using LOAD_TORQUE_pos by (simp add: INERTIA_def)
  then have "(0 - get_load_torque (0 / SYNC_SPEED_RAD) LOAD_TORQUE LOAD_TYPE - DAMPING * 0) / INERTIA \<noteq> 0"
    by (rule order.strict_implies_not_eq)
  then have d: "0 \<noteq> (0 - get_load_torque (0 / SYNC_SPEED_RAD) LOAD_TORQUE LOAD_TYPE - DAMPING * 0) / INERTIA"
    by (rule not_sym)
  show ?thesis unfolding b using a d by (rule conjI)
qed

text \<open>
  Claim C6, amended. Whenever the synchronous speed at the instantaneous setpoint
  frequency is below 0.1 rad/s, the derivative function of versions 2 and 3 returns
  exactly zero, for every rotor speed, load torque and load type: the guard returns
  before any torque, slip, load or damping term is computed.
\<close>

theorem degenerate_sync_speed_zero_derivative:
  assumes "sync_speed_rad (ff t) < 0.1"
  shows "motor_dynamics omega_rad t ff base_load_torque load_type = 0
       \<and> motor_dynamics_v2 omega_rad t ff load_torque = 0"
proof -
  have "ff t < 1" using assms by (rule degenerate_freq_lt_one)
  then show ?thesis using assms
    by (simp add: motor_dynamics_def motor_dynamics_v2_def Let_def)
qed

theorem degenerate_sync_speed_zero_derivative_witness:
  "sync_speed_rad (freq_func 0) < 0.1
   \<and> motor_dynamics 5 0 freq_func LOAD_TORQUE ''fan_pump'' = 0
   \<and> motor_dynamics_v2 5 0 freq_func LOAD_TORQUE = 0"
proof -
  have a: "sync_speed_rad (freq_func 0) < 0.1"
    by (simp add: freq_func_zero sync_speed_rad_zero)
  note r = degenerate_sync_speed_zero_derivative
    [where ff = freq_func and t = 0 and omega_rad = 5 and base_load_torque = LOAD_TORQUE
       and load_type = "''fan_pump''" and load_torque = LOAD_TORQUE, OF a]
  from a r show ?thesis by (rule conjI)
qed

section \<open>Version 3 metrics\<close>

lemma sample_metrics_inactive:
  assumes "freq_func t < 0.5"
  shows "sample_metrics t w =
     \<lparr>slip_array = 100, torque_array = 0, current_array = 0, load_torque_array = 0,
      power_output_array = 0, power_input_array = 0, efficiency_array = 0\<rparr>"
  using assms by (simp add: sample_metrics_def Let_def)

lemma sample_metrics_current:
  assumes "0.5 \<le> freq_func t"
  shows "current_array (sample_metrics t w) =
     sqrt ((FLA * (torque_array (sample_metrics t w) / RATED_TORQUE))\<^sup>2 + (FLA * 0.3)\<^sup>2)"
  using assms by (simp add: sample_metrics_def Let_def)

lemma sample_metrics_load:
  assumes "0.5 \<le> freq_func t"
  shows "load_torque_array (sample_metrics t w) =
     get_load_torque (w / SYNC_SPEED_RAD) LOAD_TORQUE LOAD_TYPE"
  using assms SYNC_SPEED_RAD_pos by (simp add: sample_metrics_def Let_def)

lemma sample_metrics_power_output:
  "power_output_array (sample_metrics t w) = w * load_torque_array (sample_metrics t w) / 1000"
  by (simp add: sample_metrics_def Let_def)

lemma sample_metrics_power_input:
  "power_input_array (sample_metrics t w) =
     sqrt 3 * VOLTAGE * current_array (sample_metrics t w) * POWER_FACTOR / 1000"
  by (simp add: sample_metrics_def Let_def)

lemma sample_metrics_efficiency:
  "efficiency_array (sample_metrics t w) =
     (if power_input_array (sample_metrics t w) > 0
      then power_output_array (sample_metrics t w) / power_input_array (sample_metrics t w) * 100
      else 0)"
  by (simp add: sample_metrics_def Let_def)

lemma magnetizing_le_current:
  assumes "0.5 \<le> freq_func t"
  shows "0.3 * FLA \<le> current_array (sample_metrics t w)"
proof -
  have "FLA * 0.3 \<le> sqrt ((FLA * (torque_array (sample_metrics t w) / RATED_TORQUE))\<^sup>2 + (FLA * 0.3)\<^sup>2)"
    by (rule real_sqrt_sum_squares_ge2)
  then show ?thesis unfolding sample_metrics_current [OF assms] by (simp add: mult.commute)
qed

lemma freq_func_mid_ramp: "freq_func 15 = 30"
  by (simp add: freq_func_def RAMP_TIME_def BASE_FREQ_def)

text \<open>
  Claim C3, as stated, fails: the first sample of a version 3 run has setpoint frequency
  zero, and the current reported there is zero, below \<open>0.3 * FLA\<close>.
\<close>

theorem inactive_sample_current_below_magnetizing:
  "current_array (metrics_series [0, 15] [0, 0] ! 0) = 0
   \<and> current_array (metrics_series [0, 15] [0, 0] ! 0) < 0.3 * FLA"
proof -
  have "metrics_series [0, 15] [0, 0] ! 0 = sample_metrics 0 0"
    by (simp add: metrics_series_def)
  moreover have "current_array (sample_metrics 0 0) = 0"
    by (simp add: sample_metrics_inactive freq_func_zero)
  ultimately show ?thesis using FLA_pos by simp
qed

text \<open>
  Claim C3, amended. At every sample whose setpoint frequency is at least 0.5 Hz the
  reported current equals \<open>sqrt (torqueComponent\<^sup>2 + magnetizingComponent\<^sup>2)\<close> with
  \<open>torqueComponent = FLA * (torque / ratedTorque)\<close> and
  \<open>magnetizingComponent = 0.3 * FLA\<close>, and is therefore at least \<open>0.3 * FLA\<close>; at every
  sample whose setpoint frequency is below 0.5 Hz the reported current is zero.
\<close>

theorem current_model:
  "(0.5 \<le> freq_func t \<longrightarrow>
      current_array (sample_metrics t w) =
        sqrt ((FLA * (torque_array (sample_metrics t w) / RATED_TORQUE))\<^sup>2 + (0.3 * FLA)\<^sup>2)
      \<and> 0.3 * FLA \<le> current_array (sample_metrics t w))
   \<and> (freq_func t < 0.5 \<longrightarrow> current_array (sample_metrics t w) = 0)"
proof (intro conjI impI)
  assume a: "0.5 \<le> freq_func t"
  show "current_array (sample_metrics t w) =
        sqrt ((FLA * (torque_array (sample_metrics t w) / RATED_TORQUE))\<^sup>2 + (0.3 * FLA)\<^sup>2)"
    using sample_metrics_current [OF a, of w] by (simp add: mult.commute)
  show "0.3 * FLA \<le> current_array (sample_metrics t w)"
    using a by (rule magnetizing_le_current)
next
  assume "freq_func t < 0.5"
  then show "current_array (sample_metrics t w) = 0"
    by (simp add: sample_metrics_inactive)
qed

theorem current_model_witness:
  "0.5 \<le> freq_func 15 \<and> 0.3 * FLA \<le> current_array (sample_metrics 15 100)
   \<and> freq_func 0 < 0.5 \<and> current_array (sample_metrics 0 0) = 0"
proof -
  have a: "0.5 \<le> freq_func 15" by (simp add: freq_func_mid_ramp)
  have b: "freq_func 0 < 0.5" by (simp add: freq_func_zero)
  have c: "0.3 * FLA \<le> current_array (sample_metrics 15 100)"
    by (rule current_model [of 15 100, THEN conjunct1, THEN mp, OF a, THEN conjunct2])
  have d: "current_array (sample_metrics 0 0) = 0"
    by (rule current_model [of 0 0, THEN conjunct2, THEN mp, OF b])
  from a c b d show ?thesis by (intro conjI)
qed

lemma metrics_series_elems:
  assumes "m \<in> set (metrics_series time omegas)"
  obtains t w where "m = sample_metrics t w"
  using assms unfolding metrics_series_def by auto

text \<open>
  Claim C10. In the version 3 metrics the input power of a sample is
  \<open>sqrt 3 * VOLTAGE * current * POWER_FACTOR / 1000\<close> with the fixed line voltage of 460 V
  (this holds at every sample, in particular at those with frequency at least 0.5 Hz),
  whatever the voltage setpoint is: \<open>voltage_func\<close> does not occur, and at mid-ramp it would
  give 230 V. Hence the startup energy is the trapezoidal integral of that full-voltage
  power over the sample times.
\<close>

theorem input_power_at_line_voltage:
  "power_input_array (sample_metrics t w) =
     sqrt 3 * VOLTAGE * current_array (sample_metrics t w) * POWER_FACTOR / 1000
   \<and> vfd_energy_kj time omegas =
     trapz (map (\<lambda>m. sqrt 3 * VOLTAGE * current_array m * POWER_FACTOR / 1000)
              (metrics_series time omegas)) time
   \<and> voltage_func (freq_func 15) = 230 \<and> VOLTAGE = 460"
proof (intro conjI)
  show "power_input_array (sample_metrics t w) =
     sqrt 3 * VOLTAGE * current_array (sample_metrics t w) * POWER_FACTOR / 1000"
    by (rule sample_metrics_power_input)
  have "map power_input_array (metrics_series time omegas) =
        map (\<lambda>m. sqrt 3 * VOLTAGE * current_array m * POWER_FACTOR / 1000)
            (metrics_series time omegas)"
  proof (rule map_cong [OF refl])
    fix m assume "m \<in> set (metrics_series time omegas)"
    then obtain t w where "m = sample_metrics t w" by (rule metrics_series_elems)
    then show "power_input_array m = sqrt 3 * VOLTAGE * current_array m * POWER_FACTOR / 1000"
      by (simp only: sample_metrics_power_input)
  qed
  then show "vfd_energy_kj time omegas =
     trapz (map (\<lambda>m. sqrt 3 * VOLTAGE * current_array m * POWER_FACTOR / 1000)
              (metrics_series time omegas)) time"
    by (simp only: vfd_energy_kj_def)
  show "voltage_func (freq_func 15) = 230"
    by (simp add: freq_func_mid_ramp voltage_func_def VOLTAGE_def BASE_FREQ_def Let_def)
  show "VOLTAGE = 460" by (rule VOLTAGE_def)
qed

section \<open>Inactive samples and the average efficiency\<close>

lemma sample_metrics_inactive_fields:
  assumes "freq_func t < 0.5"
  shows "slip_array (sample_metrics t w) = 100 \<and> torque_array (sample_metrics t w) = 0
       \<and> current_array (sample_metrics t w) = 0 \<and> load_torque_array (sample_metrics t w) = 0"
  by (simp add: sample_metrics_inactive [OF assms])

lemma sample_metrics_v2_inactive_fields:
  assumes "freq_func t < 0.5"
  shows "v2_slip (sample_metrics_v2 t w) = 100 \<and> v2_torque (sample_metrics_v2 t w) = 0
       \<and> v2_current (sample_metrics_v2 t w) = 0"
  using assms by (simp add: sample_metrics_v2_def Let_def)

lemma calculate_metrics_sample_inactive:
  assumes "vfd_freq_func t ramp_time = Some freq" "freq < 0.5"
  shows "calculate_metrics_sample iv t w ''vfd'' ramp_time = Some zero_metrics"
  using assms by (simp add: calculate_metrics_sample_def calculate_metrics_setpoint_def)

lemma vfd_freq_func_start: "vfd_freq_func 0 VFD_RAMP_TIME = Some 0"
  by (simp add: vfd_freq_func_def VFD_RAMP_TIME_def)

text \<open>
  Claim C4 says that a sample of a frequency-controlled run whose setpoint frequency is
  below 0.5 Hz reports slip 100% and zero torque, current and load torque. Versions 2 and
  3 do so (lemmas \<open>sample_metrics_inactive_fields\<close> and
  \<open>sample_metrics_v2_inactive_fields\<close>). Version 4 skips such a sample with \<open>continue\<close>, which
  leaves the slip entry at its initial zero: for the first sample of the configured VFD
  run, \<open>t = 0\<close> and \<open>omega = 0\<close>, version 4 reports slip 0 where version 3 reports 100.
\<close>

theorem v4_inactive_sample_slip_zero:
  "calculate_metrics SOFT_START_INITIAL_VOLTAGE [0] [0] ''vfd'' VFD_RAMP_TIME = Some [zero_metrics]
   \<and> m_slip zero_metrics = 0 \<and> m_slip zero_metrics \<noteq> 100
   \<and> slip_array (sample_metrics 0 0) = 100"
proof -
  have "calculate_metrics_sample SOFT_START_INITIAL_VOLTAGE 0 (Some 0) ''vfd'' VFD_RAMP_TIME
          = Some zero_metrics"
    using vfd_freq_func_start by (rule calculate_metrics_sample_inactive) simp
  then have a: "calculate_metrics SOFT_START_INITIAL_VOLTAGE [0] [0] ''vfd'' VFD_RAMP_TIME
          = Some [zero_metrics]"
    by simp
  have b: "m_slip zero_metrics = 0" by (simp add: zero_metrics_def)
  have c: "slip_array (sample_metrics 0 0) = 100"
    by (simp add: sample_metrics_inactive freq_func_zero)
  from a b c show ?thesis by simp
qed

lemma power_input_pos:
  assumes "0.5 \<le> freq_func t"
  shows "0 < power_input_array (sample_metrics t w)"
proof -
  have "0 < 0.3 * FLA" using FLA_pos by simp
  also have "\<dots> \<le> current_array (sample_metrics t w)"
    using assms by (rule magnetizing_le_current)
  finally have "0 < current_array (sample_metrics t w)" .
  then show ?thesis
    unfolding sample_metrics_power_input
    by (simp add: VOLTAGE_def POWER_FACTOR_def)
qed

lemma efficiency_pos_iff:
  "0 < efficiency_array (sample_metrics t w) \<longleftrightarrow>
     0 < power_input_array (sample_metrics t w) \<and> 0 < power_output_array (sample_metrics t w)"
proof (cases "0 < power_input_array (sample_metrics t w)")
  case True
  then show ?thesis
    by (subst sample_metrics_efficiency) (simp add: zero_less_divide_iff)
next
  case False
  then show ?thesis
    by (subst sample_metrics_efficiency) simp
qed

lemma selected_efficiencies:
  "filter (\<lambda>e. e > 0) (map efficiency_array (metrics_series time omegas)) =
   map efficiency_array
     (filter (\<lambda>m. power_input_array m > 0 \<and> power_output_array m > 0) (metrics_series time omegas))"
proof -
  have "filter (\<lambda>m. 0 < efficiency_array m) (metrics_series time omegas) =
        filter (\<lambda>m. power_input_array m > 0 \<and> power_output_array m > 0) (metrics_series time omegas)"
  proof (rule filter_cong [OF refl])
    fix m assume "m \<in> set (metrics_series time omegas)"
    then obtain t w where "m = sample_metrics t w" by (rule metrics_series_elems)
    then show "(0 < efficiency_array m) = (power_input_array m > 0 \<and> power_output_array m > 0)"
      by (simp only: efficiency_pos_iff)
  qed
  then show ?thesis by (simp add: filter_map comp_def)
qed

text \<open>
  Claim C8, amended. The average efficiency is the mean of the per-sample efficiency over
  the samples whose efficiency is strictly positive, which are exactly the samples with
  strictly positive input power and strictly positive output power; it is undefined when
  there is no such sample.
\<close>

theorem avg_efficiency_selection:
  "avg_efficiency (metrics_series time omegas) =
     (let selected = map efficiency_array
            (filter (\<lambda>m. power_input_array m > 0 \<and> power_output_array m > 0)
               (metrics_series time omegas))
      in if selected = [] then None else Some (sum_list selected / real (length selected)))"
  unfolding avg_efficiency_def selected_efficiencies ..

lemma freq_func_ramp_end: "freq_func 30 = 60"
  by (simp add: freq_func_def RAMP_TIME_def BASE_FREQ_def)

lemma configured_load_pos: "0 < get_load_torque r LOAD_TORQUE LOAD_TYPE"
proof -
  have "0 < 0.3 + 0.7 * max 0 (min r 1)"
    by (rule add_pos_nonneg) simp_all
  then show ?thesis
    unfolding LOAD_TYPE_def get_load_torque_ct_eq
    using LOAD_TORQUE_pos by (rule mult_pos_pos [rotated])
qed

lemma standstill_efficiency:
  "efficiency_array (sample_metrics t 0) = 0"
  by (subst sample_metrics_efficiency) (simp add: sample_metrics_power_output)

lemma running_efficiency_pos:
  assumes "0.5 \<le> freq_func t" "0 < w"
  shows "0 < efficiency_array (sample_metrics t w)"
proof -
  have "0 < power_output_array (sample_metrics t w)"
    unfolding sample_metrics_power_output sample_metrics_load [OF assms(1)]
    using assms(2) configured_load_pos [of "w / SYNC_SPEED_RAD"] by simp
  with power_input_pos [OF assms(1), of w] show ?thesis
    unfolding efficiency_pos_iff by simp
qed

text \<open>
  Claim C8, as stated, fails: for the two samples \<open>(t, omega) = (15, 0)\<close> and
  \<open>(30, 100)\<close> both input powers are positive, but the first efficiency is zero and is
  left out, so the computed average differs from the mean over the samples with positive
  input power.
\<close>

theorem avg_efficiency_excludes_standstill_sample:
  "0 < power_input_array (metrics_series [15, 30] [0, 100] ! 0)
   \<and> 0 < power_input_array (metrics_series [15, 30] [0, 100] ! 1)
   \<and> avg_efficiency (metrics_series [15, 30] [0, 100])
       \<noteq> avg_efficiency_spec (metrics_series [15, 30] [0, 100])"
proof -
  define m1 where "m1 = sample_metrics 15 0"
  define m2 where "m2 = sample_metrics 30 100"
  have ms: "metrics_series [15, 30] [0, 100] = [m1, m2]"
    by (simp add: metrics_series_def m1_def m2_def)
  have f1: "0.5 \<le> freq_func 15" by (simp add: freq_func_mid_ramp)
  have f2: "0.5 \<le> freq_func 30" by (simp add: freq_func_ramp_end)
  have p1: "0 < power_input_array m1" unfolding m1_def using f1 by (rule power_input_pos)
  have p2: "0 < power_input_array m2" unfolding m2_def using f2 by (rule power_input_pos)
  have e1: "efficiency_array m1 = 0" unfolding m1_def by (rule standstill_efficiency)
  have e2: "0 < efficiency_array m2" unfolding m2_def using f2 by (rule running_efficiency_pos) simp
  have a: "avg_efficiency [m1, m2] = Some (efficiency_array m2)"
    using e1 e2 by (simp add: avg_efficiency_def)
  have b: "avg_efficiency_spec [m1, m2] = Some (efficiency_array m2 / 2)"
    using e1 p1 p2 by (simp add: avg_efficiency_spec_def)
  have "efficiency_array m2 \<noteq> efficiency_array m2 / 2" using e2 by simp
  then have "avg_efficiency [m1, m2] \<noteq> avg_efficiency_spec [m1, m2]"
    unfolding a b by simp
  with p1 p2 show ?thesis unfolding ms by simp
qed

section \<open>Soft starter at full initial voltage\<close>

lemma soft_start_voltage_full:
  assumes "ramp_time \<noteq> 0"
  shows "soft_start_voltage_func 1 t ramp_time = Some VOLTAGE"
  using assms by (simp add: soft_start_voltage_func_def Let_def)

lemma VOLTAGE_nonzero: "VOLTAGE \<noteq> 0"
  by (simp add: VOLTAGE_def)

text \<open>
  Claim C9. With the soft-starter initial voltage fraction set to 1.0 (and a ramp time
  that is not zero, as configured), the control voltage is the full line voltage at every
  time, so at every time and rotor speed the soft-starter electromagnetic torque is the
  rated torque times the rational torque-slip ratio at the clamped slip, with no voltage
  attenuation, and the derivative is the equation of motion with that torque.
\<close>

theorem soft_start_full_initial_voltage:
  assumes "ramp_time \<noteq> 0"
  shows "soft_start_voltage_func 1 t ramp_time = Some VOLTAGE
       \<and> soft_start_torque_em 1 omega_rad t ramp_time =
           Some (RATED_TORQUE * torque_ratio (clip ((SYNC_SPEED_RAD - omega_rad) / SYNC_SPEED_RAD) 0 1))
       \<and> soft_start_motor_dynamics 1 omega_rad t base_load_torque load_type ramp_time =
           Some ((RATED_TORQUE * torque_ratio (clip ((SYNC_SPEED_RAD - omega_rad) / SYNC_SPEED_RAD) 0 1)
                  - get_load_torque (omega_rad / SYNC_SPEED_RAD) base_load_torque load_type
                  - DAMPING * omega_rad) / INERTIA)"
proof -
  have v: "soft_start_voltage_func 1 t ramp_time = Some VOLTAGE"
    using assms by (rule soft_start_voltage_full)
  have e: "soft_start_torque_em 1 omega_rad t ramp_time =
           Some (RATED_TORQUE * torque_ratio (clip ((SYNC_SPEED_RAD - omega_rad) / SYNC_SPEED_RAD) 0 1))"
    by (simp add: soft_start_torque_em_def v VOLTAGE_nonzero Let_def)
  have d: "soft_start_motor_dynamics 1 omega_rad t base_load_torque load_type ramp_time =
           Some ((RATED_TORQUE * torque_ratio (clip ((SYNC_SPEED_RAD - omega_rad) / SYNC_SPEED_RAD) 0 1)
                  - get_load_torque (omega_rad / SYNC_SPEED_RAD) base_load_torque load_type
                  - DAMPING * omega_rad) / INERTIA)"
    using SYNC_SPEED_RAD_pos by (simp add: soft_start_motor_dynamics_def e Let_def)
  from v e d show ?thesis by (intro conjI)
qed

theorem soft_start_full_initial_voltage_witness:
  "SOFT_START_RAMP_TIME \<noteq> 0
   \<and> soft_start_voltage_func 1 5 SOFT_START_RAMP_TIME = Some VOLTAGE
   \<and> soft_start_torque_em 1 0 5 SOFT_START_RAMP_TIME = Some (RATED_TORQUE * (250 / 123))"
proof -
  have a: "SOFT_START_RAMP_TIME \<noteq> 0" by (simp add: SOFT_START_RAMP_TIME_def)
  note r = soft_start_full_initial_voltage
    [where ramp_time = SOFT_START_RAMP_TIME and t = 5 and omega_rad = 0
       and base_load_torque = LOAD_TORQUE and load_type = LOAD_TYPE, OF a]
  have c: "clip ((SYNC_SPEED_RAD - 0) / SYNC_SPEED_RAD) 0 1 = 1"
    using SYNC_SPEED_RAD_pos by (simp add: clip_def)
  from r have v: "soft_start_voltage_func 1 5 SOFT_START_RAMP_TIME = Some VOLTAGE"
    by (rule conjunct1)
  from r have "soft_start_torque_em 1 0 5 SOFT_START_RAMP_TIME =
           Some (RATED_TORQUE * torque_ratio (clip ((SYNC_SPEED_RAD - 0) / SYNC_SPEED_RAD) 0 1))"
    by (rule conjunct1 [OF conjunct2])
  then have e: "soft_start_torque_em 1 0 5 SOFT_START_RAMP_TIME = Some (RATED_TORQUE * (250 / 123))"
    unfolding c torque_ratio_at_one .
  from a v e show ?thesis by (intro conjI)
qed

section \<open>Direct-on-line samples\<close>

lemma dol_sample_start:
  "dol_sample 0 = \<lparr>dol_omega = 0, dol_current = FLA * 6.5, dol_torque = RATED_TORQUE * 2.5\<rparr>"
  by (simp add: dol_sample_def)

lemma dol_sample_running:
  assumes "t \<noteq> 0"
  shows "dol_omega (dol_sample t) = SYNC_SPEED_RPM * 0.97 * (1 - exp (- t / 2))"
    and "dol_current (dol_sample t) = FLA * (1 + 5.5 * (1 - (1 - exp (- t / 2)) * 0.97))"
    and "dol_torque (dol_sample t) = RATED_TORQUE * (2.5 * (1 - (1 - exp (- t / 2)) * 0.97) + 1)"
  using assms by (simp_all add: dol_sample_def Let_def)

lemma simulate_dol_start_nth:
  assumes "i < 500"
  shows "simulate_dol_start ! i = dol_sample (real i * (5 / 499))"
  using assms by (simp add: simulate_dol_start_def dol_time_def linspace_def)

text \<open>
  Claim C5 says that current and torque decay from the locked-rotor values, \<open>6.5 * FLA\<close>
  and \<open>2.5 * RATED_TORQUE\<close>, toward the rated values. The current does; the torque
  formula for \<open>t > 0\<close> is \<open>RATED_TORQUE * (2.5 * slip_ratio + 1)\<close>, which tends to
  \<open>3.5 * RATED_TORQUE\<close> at \<open>t = 0\<close>: the sample at index 0 has torque
  \<open>2.5 * RATED_TORQUE\<close> and the next one, at \<open>t = 5/499\<close>, more than
  \<open>3.48 * RATED_TORQUE\<close>.
\<close>

theorem dol_torque_rises_after_start:
  "dol_torque (simulate_dol_start ! 0) = 2.5 * RATED_TORQUE
   \<and> 3.48 * RATED_TORQUE < dol_torque (simulate_dol_start ! 1)"
proof -
  have s0: "simulate_dol_start ! 0 = dol_sample 0"
    using simulate_dol_start_nth [of 0] by simp
  have s1: "simulate_dol_start ! 1 = dol_sample (5 / 499)"
    using simulate_dol_start_nth [of 1] by simp
  have a: "dol_torque (simulate_dol_start ! 0) = 2.5 * RATED_TORQUE"
    unfolding s0 dol_sample_start by simp
  define x :: real where "x = exp (- (5 / 499) / 2)"
  have "1 + (- (5 / 499) / 2) \<le> x" unfolding x_def by (rule exp_ge_add_one_self)
  then have "(3.48::real) < 2.5 * (1 - (1 - x) * 0.97) + 1" by simp
  then have "3.48 * RATED_TORQUE < RATED_TORQUE * (2.5 * (1 - (1 - x) * 0.97) + 1)"
    using RATED_TORQUE_pos by (simp add: mult.commute)
  then have b: "3.48 * RATED_TORQUE < dol_torque (simulate_dol_start ! 1)"
    unfolding s1 x_def by (simp add: dol_sample_running(3))
  from a b show ?thesis by (rule conjI)
qed

section \<open>Bounds on the rotor speed\<close>








lemma soft_start_voltage_start:
  "soft_start_voltage_func SOFT_START_INITIAL_VOLTAGE 0 SOFT_START_RAMP_TIME = Some (VOLTAGE * 0.3)"
  by (simp add: soft_start_voltage_func_def SOFT_START_INITIAL_VOLTAGE_def
      SOFT_START_RAMP_TIME_def Let_def)

lemma soft_start_torque_start:
  "soft_start_torque_em SOFT_START_INITIAL_VOLTAGE 0 0 SOFT_START_RAMP_TIME =
     Some (RATED_TORQUE * (250 / 123) * 0.09)"
proof -
  have n: "SYNC_SPEED_RAD \<noteq> 0" using SYNC_SPEED_RAD_pos by simp
  show ?thesis
    by (simp add: soft_start_torque_em_def soft_start_voltage_start Let_def n clip_def
        torque_ratio_at_one VOLTAGE_def power2_eq_square)
qed

lemma soft_start_initial_derivative:
  "soft_start_motor_dynamics SOFT_START_INITIAL_VOLTAGE 0 0 LOAD_TORQUE LOAD_TYPE
       SOFT_START_RAMP_TIME = Some (- (23 / 82000) * RATED_TORQUE)"
proof -
  have l: "get_load_torque 0 LOAD_TORQUE LOAD_TYPE = RATED_TORQUE * 0.75 * 0.3"
    by (simp add: LOAD_TYPE_def get_load_torque_ct_eq LOAD_TORQUE_def LOAD_TORQUE_FACTOR_def)
  have "soft_start_motor_dynamics SOFT_START_INITIAL_VOLTAGE 0 0 LOAD_TORQUE LOAD_TYPE
          SOFT_START_RAMP_TIME
        = Some ((RATED_TORQUE * (250 / 123) * 0.09 - RATED_TORQUE * 0.75 * 0.3 - DAMPING * 0) / INERTIA)"
    using SYNC_SPEED_RAD_pos
    by (simp add: soft_start_motor_dynamics_def soft_start_torque_start Let_def l)
  also have "(RATED_TORQUE * (250 / 123) * 0.09 - RATED_TORQUE * 0.75 * 0.3 - DAMPING * 0) / INERTIA
        = - (23 / 82000) * RATED_TORQUE"
    by (simp add: INERTIA_def)
  finally show ?thesis .
qed


text \<open>
  Every trajectory of the configured soft-starter run over a horizon of positive length
  takes a negative value: the derivative at the initial state is negative.
\<close>

lemma configured_soft_start_goes_negative:
  assumes "soft_start_trajectory w T SOFT_START_INITIAL_VOLTAGE LOAD_TORQUE LOAD_TYPE
             SOFT_START_RAMP_TIME"
    and "0 < T"
  shows "\<exists>t\<in>{0..T}. w t < 0"
proof -
  have w0: "w 0 = 0" using assms(1) by (simp add: soft_start_trajectory_def)
  have "0 \<in> {0..T}" using assms(2) by simp
  with assms(1) obtain d where
    d: "soft_start_motor_dynamics SOFT_START_INITIAL_VOLTAGE (w 0) 0 LOAD_TORQUE LOAD_TYPE
          SOFT_START_RAMP_TIME = Some d"
    and der: "(w has_real_derivative d) (at 0 within {0..T})"
    unfolding soft_start_trajectory_def by blast
  have "d = - (23 / 82000) * RATED_TORQUE"
    using d soft_start_initial_derivative unfolding w0 by simp
  then have "d < 0" using RATED_TORQUE_pos by simp
  with der obtain e where e: "0 < e"
    and dec: "\<forall>h>0. 0 + h \<in> {0..T} \<longrightarrow> h < e \<longrightarrow> w (0 + h) < w 0"
    using has_real_derivative_neg_dec_right [of w d 0 "{0..T}"] by blast
  define h where "h = min T (e / 2)"
  have h: "0 < h" "h \<le> T" "h < e" using e assms(2) by (simp_all add: h_def)
  then have "w (0 + h) < w 0" using dec by simp
  then have "w h < 0" using w0 by simp
  moreover have "h \<in> {0..T}" using h by simp
  ultimately show ?thesis by blast
qed

text \<open>
  The VFD derivative of version 3 is negative at standstill as well once the startup
  regime ends: at \<open>t = 0.5\<close> the setpoint is 1 Hz and the scaled torque at slip 1 is below
  the breakaway load torque.
\<close>

lemma freq_func_half_second: "freq_func (1 / 2) = 1"
  by (simp add: freq_func_def RAMP_TIME_def BASE_FREQ_def)

lemma vfd_standstill_derivative_at_one_hertz:
  "motor_dynamics 0 (1 / 2) freq_func LOAD_TORQUE LOAD_TYPE < 0"
proof -
  have l: "get_load_torque 0 LOAD_TORQUE LOAD_TYPE = RATED_TORQUE * 0.75 * 0.3"
    by (simp add: LOAD_TYPE_def get_load_torque_ct_eq LOAD_TORQUE_def LOAD_TORQUE_FACTOR_def)
  have n: "sync_speed_rad 1 \<noteq> 0" by (simp add: sync_speed_rad_eq)
  have "motor_dynamics 0 (1 / 2) freq_func LOAD_TORQUE LOAD_TYPE =
      (RATED_TORQUE * (250 / 123) * (1 / 60) * (1 + 0.15 * (1 - 1 / 9))
         - RATED_TORQUE * 0.75 * 0.3 - DAMPING * 0) / INERTIA"
    using SYNC_SPEED_RAD_pos
    by (simp add: motor_dynamics_def freq_func_half_second Let_def n l clip_def
        torque_ratio_at_one BASE_FREQ_def V_BOOST_def)
  also have "\<dots> = - (8263 / 6642000) * RATED_TORQUE"
    by (simp add: INERTIA_def)
  also have "\<dots> < 0" using RATED_TORQUE_pos by simp
  finally show ?thesis .
qed












end
